theory Spec2Isabelle
  imports Complex_Main
begin

section \<open>JavaScript numbers\<close>

text \<open>
  The program is JavaScript; every quantity is a \<^verbatim>\<open>number\<close>. A number is modelled as an
  exact real or one of the three special values \<^verbatim>\<open>Infinity\<close>, \<^verbatim>\<open>-Infinity\<close> and
  \<^verbatim>\<open>NaN\<close>. Arithmetic on finite values is exact: the rounding of IEEE doubles, overflow
  of a finite operation to an infinity and the sign of zero are not modelled. The
  operators below follow ECMAScript on the special values.
\<close>

datatype jsnum = Fin real | PInf | NInf | NaN

text \<open>The relational operators \<^verbatim>\<open><\<close>, \<^verbatim>\<open>>\<close>, \<^verbatim>\<open><=\<close>, \<^verbatim>\<open>>=\<close>: false when an operand is NaN.\<close>

fun js_lt :: "jsnum \<Rightarrow> jsnum \<Rightarrow> bool" where
  "js_lt NaN b = False"
| "js_lt a NaN = False"
| "js_lt (Fin a) (Fin b) = (a < b)"
| "js_lt (Fin a) PInf = True"
| "js_lt NInf (Fin b) = True"
| "js_lt NInf PInf = True"
| "js_lt a b = False"

definition js_gt :: "jsnum \<Rightarrow> jsnum \<Rightarrow> bool" where
  "js_gt a b = js_lt b a"

fun js_le :: "jsnum \<Rightarrow> jsnum \<Rightarrow> bool" where
  "js_le NaN b = False"
| "js_le a NaN = False"
| "js_le (Fin a) (Fin b) = (a \<le> b)"
| "js_le a PInf = True"
| "js_le NInf b = True"
| "js_le a b = False"

definition js_ge :: "jsnum \<Rightarrow> jsnum \<Rightarrow> bool" where
  "js_ge a b = js_le b a"

text \<open>\<^verbatim>\<open>Math.min\<close> and \<^verbatim>\<open>Math.max\<close> of two arguments: NaN when an argument is NaN.\<close>

definition js_min :: "jsnum \<Rightarrow> jsnum \<Rightarrow> jsnum" where
  "js_min a b = (if a = NaN \<or> b = NaN then NaN else if js_lt a b then a else b)"

definition js_max :: "jsnum \<Rightarrow> jsnum \<Rightarrow> jsnum" where
  "js_max a b = (if a = NaN \<or> b = NaN then NaN else if js_lt a b then b else a)"

text \<open>Unary minus, \<^verbatim>\<open>+\<close>, \<^verbatim>\<open>-\<close>, \<^verbatim>\<open>*\<close> and \<^verbatim>\<open>/\<close>.\<close>

fun js_neg :: "jsnum \<Rightarrow> jsnum" where
  "js_neg (Fin a) = Fin (- a)"
| "js_neg PInf = NInf"
| "js_neg NInf = PInf"
| "js_neg NaN = NaN"

fun js_add :: "jsnum \<Rightarrow> jsnum \<Rightarrow> jsnum" where
  "js_add NaN b = NaN"
| "js_add a NaN = NaN"
| "js_add (Fin a) (Fin b) = Fin (a + b)"
| "js_add PInf NInf = NaN"
| "js_add NInf PInf = NaN"
| "js_add (Fin a) b = b"
| "js_add a b = a"

definition js_sub :: "jsnum \<Rightarrow> jsnum \<Rightarrow> jsnum" where
  "js_sub a b = js_add a (js_neg b)"

text \<open>The sign of a number that is not NaN, used for products and quotients with an infinity.\<close>

fun js_sign :: "jsnum \<Rightarrow> real" where
  "js_sign (Fin a) = sgn a"
| "js_sign PInf = 1"
| "js_sign NInf = - 1"
| "js_sign NaN = 0"

definition js_inf_of_sign :: "real \<Rightarrow> jsnum" where
  "js_inf_of_sign s = (if s = 0 then NaN else if 0 < s then PInf else NInf)"

fun js_mul :: "jsnum \<Rightarrow> jsnum \<Rightarrow> jsnum" where
  "js_mul NaN b = NaN"
| "js_mul a NaN = NaN"
| "js_mul (Fin a) (Fin b) = Fin (a * b)"
| "js_mul a b = js_inf_of_sign (js_sign a * js_sign b)"

text \<open>
  Division. A finite quotient by zero is an infinity whose sign in JavaScript depends on
  the sign of the zero; the zero is taken as \<^verbatim>\<open>+0\<close> here. The program divides a
  non-constant only in \<^verbatim>\<open>calculateRatio\<close>, behind its guard.
\<close>

fun js_div :: "jsnum \<Rightarrow> jsnum \<Rightarrow> jsnum" where
  "js_div NaN b = NaN"
| "js_div a NaN = NaN"
| "js_div (Fin a) (Fin b) = (if b = 0 then js_inf_of_sign (sgn a) else Fin (a / b))"
| "js_div (Fin a) b = Fin 0"
| "js_div a (Fin b) = js_inf_of_sign (js_sign a * (if b < 0 then - 1 else 1))"
| "js_div a b = NaN"

text \<open>\<^verbatim>\<open>Math.log10\<close>, \<^verbatim>\<open>Math.log\<close>, \<^verbatim>\<open>Math.round\<close>, \<^verbatim>\<open>Math.floor\<close>, \<^verbatim>\<open>Math.sin\<close>.\<close>

fun js_log10 :: "jsnum \<Rightarrow> jsnum" where
  "js_log10 (Fin a) = (if a < 0 then NaN else if a = 0 then NInf else Fin (log 10 a))"
| "js_log10 PInf = PInf"
| "js_log10 NInf = NaN"
| "js_log10 NaN = NaN"

fun js_log :: "jsnum \<Rightarrow> jsnum" where
  "js_log (Fin a) = (if a < 0 then NaN else if a = 0 then NInf else Fin (ln a))"
| "js_log PInf = PInf"
| "js_log NInf = NaN"
| "js_log NaN = NaN"

fun js_round :: "jsnum \<Rightarrow> jsnum" where
  "js_round (Fin a) = Fin (of_int \<lfloor>a + 1 / 2\<rfloor>)"
| "js_round a = a"

fun js_floor :: "jsnum \<Rightarrow> jsnum" where
  "js_floor (Fin a) = Fin (of_int \<lfloor>a\<rfloor>)"
| "js_floor a = a"

fun js_sin :: "jsnum \<Rightarrow> jsnum" where
  "js_sin (Fin a) = Fin (sin a)"
| "js_sin a = NaN"

section \<open>The balance calculations (\<^verbatim>\<open>docs/js/balance.js\<close>)\<close>

text \<open>
  The four parameters \<^verbatim>\<open>Qs\<close>, \<^verbatim>\<open>D50\<close>, \<^verbatim>\<open>Qw\<close>, \<^verbatim>\<open>S\<close> are slider values, finite numbers;
  the ratio handed from function to function may be \<^verbatim>\<open>Infinity\<close>, so it is a \<^typ>\<open>jsnum\<close>.
\<close>

text \<open>The documented range of each of the four parameters, \<^verbatim>\<open>(1-100)\<close>.\<close>

definition inDomain :: "real \<Rightarrow> bool" where
  "inDomain v = (1 \<le> v \<and> v \<le> 100)"

definition mapD50 :: "real \<Rightarrow> real" where
  "mapD50 v =
     (let ratio = (v - 1) / 99;
          logValue = - 1 + 3 * ratio
      in 10 powr logValue)"

definition mapSlope :: "real \<Rightarrow> real" where
  "mapSlope v = 0.1 + (v / 100) * 5.906"

definition calculateRatio :: "real \<Rightarrow> real \<Rightarrow> real \<Rightarrow> real \<Rightarrow> jsnum" where
  "calculateRatio Qs D50 Qw S =
     (let sedimentTerm = Qs * mapD50 D50;
          waterTerm = Qw * mapSlope S
      in if waterTerm = 0 then PInf else Fin (sedimentTerm / waterTerm))"

definition getImbalanceIndex :: "jsnum \<Rightarrow> jsnum" where
  "getImbalanceIndex ratio =
     (let clampedRatio = js_max (Fin 0.01) (js_min (Fin 100) ratio)
      in js_log10 clampedRatio)"

definition getState :: "jsnum \<Rightarrow> string" where
  "getState ratio =
     (let imbalance = getImbalanceIndex ratio
      in if js_lt imbalance (Fin (- 0.05)) then ''degradation''
         else if js_gt imbalance (Fin 0.05) then ''aggradation''
         else ''equilibrium'')"

definition calculateStreamPower :: "real \<Rightarrow> real \<Rightarrow> real" where
  "calculateStreamPower Qw S = (Qw * S) / (100 * 100)"

text \<open>
  \<^verbatim>\<open>braidingIndex\<close> is a local constant of \<^verbatim>\<open>getChannelPattern\<close>; it is a definition of
  its own here so that its value can be named.
\<close>

definition braidingIndex :: "real \<Rightarrow> real \<Rightarrow> jsnum \<Rightarrow> jsnum" where
  "braidingIndex Qs D50 ratio =
     (let sedimentLoad = Qs / 100;
          grainSize = D50 / 100;
          aggradationFactor =
            (if js_gt ratio (Fin 1) then js_min (js_mul (js_sub ratio (Fin 1)) (Fin 0.3)) (Fin 0.3)
             else Fin 0)
      in js_add (Fin (sedimentLoad * 0.35 + grainSize * 0.25)) aggradationFactor)"

definition getChannelPattern :: "real \<Rightarrow> real \<Rightarrow> real \<Rightarrow> real \<Rightarrow> jsnum \<Rightarrow> string" where
  "getChannelPattern Qs D50 Qw S ratio =
     (let slope = S / 100;
          discharge = Qw / 100;
          streamPower = discharge * slope
      in if js_gt (braidingIndex Qs D50 ratio) (Fin 0.5) then ''braided''
         else if discharge < 0.15 then ''straight''
         else ''meandering'')"

record process =
  name :: string
  type :: string

definition getActiveProcesses :: "jsnum \<Rightarrow> real \<Rightarrow> real \<Rightarrow> process list" where
  "getActiveProcesses ratio Qw S =
     (let state = getState ratio;
          streamPower = calculateStreamPower Qw S
      in if state = ''degradation'' then
           [\<lparr>name = ''Bed incision'', type = ''degradation''\<rparr>]
           @ (if streamPower > 0.3 then [\<lparr>name = ''Bank erosion'', type = ''degradation''\<rparr>] else [])
           @ (if streamPower > 0.5 then [\<lparr>name = ''Knickpoint migration'', type = ''degradation''\<rparr>] else [])
           @ (if js_lt ratio (Fin 0.5) then [\<lparr>name = ''Bed armoring'', type = ''degradation''\<rparr>] else [])
         else if state = ''aggradation'' then
           [\<lparr>name = ''Bar formation'', type = ''aggradation''\<rparr>]
           @ (if js_gt ratio (Fin 1.5) then [\<lparr>name = ''Channel widening'', type = ''aggradation''\<rparr>] else [])
           @ (if js_gt ratio (Fin 2) then [\<lparr>name = ''Avulsion risk'', type = ''aggradation''\<rparr>] else [])
           @ [\<lparr>name = ''Overbank deposition'', type = ''aggradation''\<rparr>]
         else
           [\<lparr>name = ''Sediment transport balance'', type = ''equilibrium''\<rparr>,
            \<lparr>name = ''Dynamic equilibrium'', type = ''equilibrium''\<rparr>])"

section \<open>Auxiliary facts\<close>

lemma log10_100: "log 10 (100::real) = 2"
proof -
  have "(100::real) = 10 ^ 2" by simp
  then have "log 10 (100::real) = log 10 (10 ^ 2)" by (simp only:)
  also have "\<dots> = 2" by (subst log_nat_power) simp_all
  finally show ?thesis .
qed

lemma log10_001: "log 10 (1 / 100::real) = - 2"
proof -
  have "log 10 (1 / 100::real) = - log 10 100" by (rule log_recip)
  then show ?thesis by (simp only: log10_100)
qed

lemma js_max_Fin: "js_max (Fin a) (Fin b) = Fin (max a b)"
  by (auto simp add: js_max_def max_def)

lemma js_min_Fin: "js_min (Fin a) (Fin b) = Fin (min a b)"
  by (auto simp add: js_min_def min_def)

lemma clamp_pos: "0 < lo \<Longrightarrow> 0 < max lo (min hi (r::real))"
  by (simp add: max_def)

lemma mapD50_pos: "0 < mapD50 v"
  by (simp add: mapD50_def)

lemma mapSlope_pos: "0 \<le> v \<Longrightarrow> 0 < mapSlope v"
  unfolding mapSlope_def
  by (rule add_pos_nonneg) simp_all

lemma waterTerm_pos: "inDomain Qw \<Longrightarrow> inDomain S \<Longrightarrow> 0 < Qw * mapSlope S"
  by (rule mult_pos_pos) (simp_all add: inDomain_def mapSlope_pos)

lemma calculateRatio_Fin:
  "Qw * mapSlope S \<noteq> 0 \<Longrightarrow>
   calculateRatio Qs D50 Qw S = Fin (Qs * mapD50 D50 / (Qw * mapSlope S))"
  by (simp add: calculateRatio_def)

lemma getImbalanceIndex_Fin:
  "getImbalanceIndex (Fin r) = Fin (log 10 (max (1 / 100) (min 100 r)))"
  using clamp_pos [of "1 / 100" 100 r]
  by (simp add: getImbalanceIndex_def js_min_Fin js_max_Fin
        del: max_less_iff_conj less_max_iff_disj)

lemma powr10_le:
  fixes u :: real
  assumes "0 \<le> u" "0 < n" "(10::real) ^ m \<le> u ^ n"
  shows "10 powr (real m / real n) \<le> u"
proof -
  have "(10 powr (real m / real n)) ^ n = 10 powr (real n * (real m / real n))"
    by (rule powr_power) simp
  also have "\<dots> = 10 powr real m" using assms(2) by simp
  also have "\<dots> = 10 ^ m" by (rule powr_realpow) simp
  finally have "(10 powr (real m / real n)) ^ n \<le> u ^ n" using assms(3) by simp
  then show ?thesis using assms(1,2) by (simp add: power_mono_iff)
qed

lemma powr10_ge:
  fixes l :: real
  assumes "0 \<le> l" "0 < n" "l ^ n \<le> (10::real) ^ m"
  shows "l \<le> 10 powr (real m / real n)"
proof -
  have "(10 powr (real m / real n)) ^ n = 10 powr (real n * (real m / real n))"
    by (rule powr_power) simp
  also have "\<dots> = 10 powr real m" using assms(2) by simp
  also have "\<dots> = 10 ^ m" by (rule powr_realpow) simp
  finally have "l ^ n \<le> (10 powr (real m / real n)) ^ n" using assms(3) by simp
  then show ?thesis using assms(1,2) by (simp add: power_mono_iff)
qed

lemma mapD50_50: "mapD50 50 = 10 powr (16 / 33)"
  by (simp add: mapD50_def)


lemma mapSlope_50: "mapSlope 50 = 3053 / 1000"
  by (simp add: mapSlope_def)

lemma mapD50_50_bounds: "14 / 5 \<le> mapD50 50" "mapD50 50 \<le> 16 / 5"
proof -
  have "(14 / 5 :: real) \<le> 10 powr (real 16 / real 33)"
    by (rule powr10_ge) (simp_all add: power_divide)
  then show "14 / 5 \<le> mapD50 50" by (simp add: mapD50_50)
  have "10 powr (real 16 / real 33) \<le> (16 / 5 :: real)"
    by (rule powr10_le) (simp_all add: power_divide)
  then show "mapD50 50 \<le> 16 / 5" by (simp add: mapD50_50)
qed


lemma log10_upper: "log 10 (11 / 10 :: real) \<le> 1 / 20"
proof -
  have "(11 / 10 :: real) \<le> 10 powr (real 1 / real 20)"
    by (rule powr10_ge) (simp_all add: power_divide)
  then show ?thesis using log_le_iff [of 10 "11 / 10" "real 1 / real 20"] by simp
qed

lemma log10_lower: "- (1 / 20) \<le> log 10 (9 / 10 :: real)"
proof -
  have "(10 / 9 :: real) \<le> 10 powr (real 1 / real 20)"
    by (rule powr10_ge) (simp_all add: power_divide)
  then have "log 10 (10 / 9 :: real) \<le> 1 / 20"
    using log_le_iff [of 10 "10 / 9" "real 1 / real 20"] by simp
  moreover have "log 10 (10 / 9 :: real) = - log 10 (9 / 10)"
    using log_recip [of 10 "9 / 10 :: real"] by simp
  ultimately show ?thesis by simp
qed

lemma getState_equilibrium:
  assumes "9 / 10 \<le> r" "r \<le> 11 / 10"
  shows "getState (Fin r) = ''equilibrium''"
proof -
  have c: "max (1 / 100) (min 100 r) = r" using assms by (simp add: max_def min_def)
  have "log 10 r \<le> log 10 (11 / 10)" using assms by (simp add: log_le_cancel_iff)
  then have u: "log 10 r \<le> 1 / 20" using log10_upper by (rule order_trans)
  have "log 10 (9 / 10) \<le> log 10 r" using assms by (subst log_le_cancel_iff) simp_all
  with log10_lower have l: "- (1 / 20) \<le> log 10 r" by (rule order_trans)
  show ?thesis using u l
    by (simp add: getState_def getImbalanceIndex_Fin c js_gt_def not_less)
qed

lemma braidingIndex_Fin:
  "braidingIndex Qs D50 (Fin r) =
     Fin (Qs / 100 * 0.35 + D50 / 100 * 0.25 + (if 1 < r then min ((r - 1) * 0.3) 0.3 else 0))"
  by (simp add: braidingIndex_def js_gt_def js_sub_def js_min_Fin)

lemma ratio_mid:
  "\<exists>r. calculateRatio 50 50 50 50 = Fin r \<and> 9 / 10 \<le> r \<and> r \<le> 11 / 10"
proof -
  have "calculateRatio 50 50 50 50 = Fin (50 * mapD50 50 / (50 * (3053 / 1000)))"
    by (simp add: calculateRatio_def mapSlope_50)
  moreover have "9 / 10 \<le> 50 * mapD50 50 / (50 * (3053 / 1000))"
    using mapD50_50_bounds(1) by simp
  moreover have "50 * mapD50 50 / (50 * (3053 / 1000)) \<le> 11 / 10"
    using mapD50_50_bounds(2) by simp
  ultimately show ?thesis by blast
qed










lemma getState_cases:
  "getState r = ''degradation'' \<or> getState r = ''aggradation'' \<or> getState r = ''equilibrium''"
  by (simp add: getState_def Let_def)

section \<open>Regime tags of the active processes\<close>

text \<open>
  Claim C9. For every ratio (finite, infinite or NaN) and every \<^verbatim>\<open>Qw\<close>, \<^verbatim>\<open>S\<close>, each
  process in the list returned by \<^verbatim>\<open>getActiveProcesses(ratio, Qw, S)\<close> carries in its
  \<^verbatim>\<open>type\<close> field the regime string that \<^verbatim>\<open>getState(ratio)\<close> returns, and the list is
  not empty.
\<close>

theorem getActiveProcesses_type_is_state:
  "(\<forall>p \<in> set (getActiveProcesses ratio Qw S). type p = getState ratio)
   \<and> getActiveProcesses ratio Qw S \<noteq> []"
  using getState_cases [of ratio]
  by (auto simp add: getActiveProcesses_def Let_def)

theorem getActiveProcesses_type_is_state_witness:
  "list_all (\<lambda>p. type p = getState (Fin 3)) (getActiveProcesses (Fin 3) 80 80)
   \<and> getActiveProcesses (Fin 3) 80 80 \<noteq> []"
  unfolding list_all_iff by (rule getActiveProcesses_type_is_state)

section \<open>The infinite ratio downstream\<close>

text \<open>
  Claim C10. For the ratio \<^verbatim>\<open>Infinity\<close>, the value \<^verbatim>\<open>calculateRatio\<close> returns when the
  water term is zero, \<^verbatim>\<open>getImbalanceIndex\<close> returns exactly 2 (the logarithm of the upper
  clamp 100, neither NaN nor an infinity) and \<^verbatim>\<open>getState\<close> returns
  \<^verbatim>\<open>'aggradation'\<close>.
\<close>

theorem infinite_ratio_absorbed:
  "getImbalanceIndex PInf = Fin 2 \<and> getState PInf = ''aggradation''"
  by (simp add: getState_def getImbalanceIndex_def js_min_def js_max_def js_gt_def log10_100)

section \<open>Monotonicity of the ratio\<close>

text \<open>
  Claim C4. For parameters in [1, 100]: with \<^verbatim>\<open>D50\<close>, \<^verbatim>\<open>Qw\<close>, \<^verbatim>\<open>S\<close> fixed,
  \<^verbatim>\<open>calculateRatio\<close> is non-decreasing in \<^verbatim>\<open>Qs\<close>; with \<^verbatim>\<open>Qs\<close>, \<^verbatim>\<open>D50\<close>, \<^verbatim>\<open>S\<close> fixed, it
  is non-increasing in \<^verbatim>\<open>Qw\<close>. The comparison is JavaScript's \<^verbatim>\<open><=\<close>.
\<close>

theorem calculateRatio_monotone:
  assumes "inDomain Qs" "inDomain Qs'" "inDomain D50" "inDomain Qw" "inDomain Qw'" "inDomain S"
  shows "(Qs \<le> Qs' \<longrightarrow> js_le (calculateRatio Qs D50 Qw S) (calculateRatio Qs' D50 Qw S)) \<and>
         (Qw \<le> Qw' \<longrightarrow> js_le (calculateRatio Qs D50 Qw' S) (calculateRatio Qs D50 Qw S))"
proof (intro conjI impI)
  have w: "0 < Qw * mapSlope S" and w': "0 < Qw' * mapSlope S"
    using assms by (simp_all add: waterTerm_pos)
  have wn: "Qw * mapSlope S \<noteq> 0" and wn': "Qw' * mapSlope S \<noteq> 0"
    using w w' by (simp_all only: less_imp_neq [THEN not_sym] not_False_eq_True)
  have s: "0 \<le> Qs * mapD50 D50"
    using assms(1) mapD50_pos [of D50] by (simp add: inDomain_def)
  {
    assume "Qs \<le> Qs'"
    then have "Qs * mapD50 D50 \<le> Qs' * mapD50 D50"
      using mapD50_pos [of D50] by (simp add: mult_right_mono)
    then have "Qs * mapD50 D50 / (Qw * mapSlope S) \<le> Qs' * mapD50 D50 / (Qw * mapSlope S)"
      using w by (simp add: divide_right_mono)
    then show "js_le (calculateRatio Qs D50 Qw S) (calculateRatio Qs' D50 Qw S)"
      by (simp only: calculateRatio_Fin [OF wn] js_le.simps)
  }
  {
    assume "Qw \<le> Qw'"
    then have "Qw * mapSlope S \<le> Qw' * mapSlope S"
      using assms(6) by (simp add: mult_right_mono mapSlope_pos inDomain_def less_imp_le)
    then have "Qs * mapD50 D50 / (Qw' * mapSlope S) \<le> Qs * mapD50 D50 / (Qw * mapSlope S)"
      by (rule frac_le [OF s order_refl w])
    then show "js_le (calculateRatio Qs D50 Qw' S) (calculateRatio Qs D50 Qw S)"
      by (simp only: calculateRatio_Fin [OF wn] calculateRatio_Fin [OF wn'] js_le.simps)
  }
qed

theorem calculateRatio_monotone_witness:
  "inDomain 10 \<and> inDomain 20 \<and> inDomain 50 \<and> inDomain 60 \<and> (10::real) \<le> 20 \<and> (50::real) \<le> 60 \<and>
   js_le (calculateRatio 10 50 50 50) (calculateRatio 20 50 50 50) \<and>
   js_le (calculateRatio 10 50 60 50) (calculateRatio 10 50 50 50)"
proof -
  have d: "inDomain 10" "inDomain 20" "inDomain 50" "inDomain 60"
    by (simp_all add: inDomain_def)
  show ?thesis
    using calculateRatio_monotone [OF d(1) d(2) d(3) d(3) d(4) d(3)] d by simp
qed

section \<open>Symmetry of the imbalance index\<close>

text \<open>
  Claim C7. For every \<^verbatim>\<open>r\<close> with \<^verbatim>\<open>0 < r <= 100\<close>,
  \<^verbatim>\<open>getImbalanceIndex(r) = -getImbalanceIndex(1 / r)\<close>, where the index is the base-10
  logarithm of the ratio clamped to [0.01, 100]. In exact arithmetic the two sides are
  equal.
\<close>

theorem getImbalanceIndex_odd:
  assumes "0 < r" "r \<le> 100"
  shows "getImbalanceIndex (Fin r) = js_neg (getImbalanceIndex (js_div (Fin 1) (Fin r)))"
proof (cases "r < 1 / 100")
  case True
  then have "100 < 1 / r" using assms(1) by (simp add: field_simps)
  then show ?thesis using True assms
    by (simp add: getImbalanceIndex_Fin log10_100 log10_001 max_def min_def)
next
  case False
  then have "1 / r \<le> 100" using assms(1) by (simp add: field_simps)
  moreover have "1 / 100 \<le> 1 / r" using assms by (simp add: field_simps)
  ultimately show ?thesis using False assms
    by (simp add: getImbalanceIndex_Fin max_def min_def log_recip log_divide)
qed

theorem getImbalanceIndex_odd_witness:
  "(0::real) < 4 \<and> (4::real) \<le> 100 \<and>
   getImbalanceIndex (Fin 4) = js_neg (getImbalanceIndex (js_div (Fin 1) (Fin 4)))"
  using getImbalanceIndex_odd [of 4] by simp

section \<open>The midpoint scenario\<close>

text \<open>
  Claim C1. With all four parameters at the midpoint 50, the ratio returned by
  \<^verbatim>\<open>calculateRatio(50, 50, 50, 50)\<close> has the state \<^verbatim>\<open>'equilibrium'\<close>, and
  \<^verbatim>\<open>getChannelPattern(50, 50, 50, 50, ratio)\<close> with that ratio returns \<^verbatim>\<open>'meandering'\<close>.
  The ratio is \<open>10 powr (16 / 33) / 3.053\<close>, about 1.0003.
\<close>

theorem midpoint_equilibrium_meandering:
  "getState (calculateRatio 50 50 50 50) = ''equilibrium'' \<and>
   getChannelPattern 50 50 50 50 (calculateRatio 50 50 50 50) = ''meandering''"
proof -
  obtain r where r: "calculateRatio 50 50 50 50 = Fin r" "9 / 10 \<le> r" "r \<le> 11 / 10"
    using ratio_mid by blast
  have "getState (Fin r) = ''equilibrium''" using r(2,3) by (rule getState_equilibrium)
  moreover have "getChannelPattern 50 50 50 50 (Fin r) = ''meandering''"
  proof -
    define a where "a = (if 1 < r then min ((r - 1) * 0.3) 0.3 else 0)"
    have "min ((r - 1) * 0.3) 0.3 \<le> (r - 1) * 0.3" by (rule min.cobounded1)
    also have "\<dots> \<le> 1 / 10" using r(3) by simp
    finally have "a \<le> 1 / 10" by (simp add: a_def)
    then have "\<not> 1 / 2 < 50 / 100 * 0.35 + 50 / 100 * 0.25 + a" by simp
    then show ?thesis
      by (simp add: getChannelPattern_def braidingIndex_Fin js_gt_def a_def [symmetric])
  qed
  ultimately show ?thesis by (simp only: r(1))
qed

section \<open>Pattern boundaries\<close>




end
